theory Spec2Isabelle
  imports Complex_Main "HOL-Library.Multiset"
begin

section \<open>Fixed-point decimals (the \<^verbatim>\<open>sdk.Dec\<close> of the cosmos-sdk)\<close>

text \<open>
  Prices and volumes are \<^verbatim>\<open>sdk.Dec\<close> values: a big integer counting units of
  \<open>10\<^sup>-\<^sup>1\<^sup>8\<close>. A \<open>Dec\<close> is modelled by that integer. The decimal library is a
  dependency of the repository, not part of it; the operations below follow its
  arithmetic: addition and subtraction are exact, multiplication and division chop the
  extra 18 digits with round-half-to-even, division by an integer truncates towards zero.
\<close>

type_synonym Dec = int

definition precisionReuse :: int where
  "precisionReuse = 10 ^ 18"

definition fivePrecision :: int where
  "fivePrecision = 5 * 10 ^ 17"

text \<open>\<^verbatim>\<open>MustNewDecFromStr\<close> on a literal with mantissa \<open>m\<close> and \<open>k \<le> 18\<close> fractional
  digits: \<^verbatim>\<open>"28.21000000"\<close> is \<open>mkDec 2821000000 8\<close>.\<close>

definition mkDec :: "int \<Rightarrow> nat \<Rightarrow> Dec" where
  "mkDec m k = m * 10 ^ (18 - k)"

text \<open>\<^verbatim>\<open>big.Int.Quo\<close>: the quotient truncated towards zero (the divisor is not zero
  where it is called).\<close>

definition bigQuo :: "int \<Rightarrow> int \<Rightarrow> int" where
  "bigQuo a b = sgn a * sgn b * (\<bar>a\<bar> div \<bar>b\<bar>)"

definition chopPos :: "int \<Rightarrow> int" where
  "chopPos d =
     (let quo = d div precisionReuse; rem = d mod precisionReuse in
      if rem = 0 then quo
      else if rem < fivePrecision then quo
      else if rem > fivePrecision then quo + 1
      else if even quo then quo else quo + 1)"

definition chopPrecisionAndRound :: "int \<Rightarrow> int" where
  "chopPrecisionAndRound d = (if d < 0 then - chopPos (- d) else chopPos d)"

definition mulDec :: "Dec \<Rightarrow> Dec \<Rightarrow> Dec" where
  "mulDec d d2 = chopPrecisionAndRound (d * d2)"

definition quoDec :: "Dec \<Rightarrow> Dec \<Rightarrow> Dec" where
  "quoDec d d2 = chopPrecisionAndRound (bigQuo (d * precisionReuse * precisionReuse) d2)"

definition quoInt64 :: "Dec \<Rightarrow> int \<Rightarrow> Dec" where
  "quoInt64 d n = bigQuo d n"

section \<open>Ticker prices\<close>

record TickerPrice =
  Price :: Dec
  Volume :: Dec
  Time :: int

section \<open>The VWAP aggregator\<close>

datatype error =
    ErrNoTickers
  | ErrZeroVolume
  | ErrMarshal
  | ErrTransport string
  | ErrDecode string

text \<open>
  Modelled from the spec: \<^verbatim>\<open>ComputeVWAP\<close> is called by the test file but its body is
  not among the sources. The spec (4.3) gives it as \<open>\<Sum>(price\<^sub>i \<times> volume\<^sub>i) / \<Sum>(volume\<^sub>i)\<close>
  over a non-empty sequence, in decimal arithmetic of unbounded magnitude, with an
  explicit error for empty input and for a zero total volume.
\<close>

definition ComputeVWAP :: "TickerPrice list \<Rightarrow> error + Dec" where
  "ComputeVWAP tickers =
     (if tickers = [] then Inl ErrNoTickers
      else
        let volumeSum = sum_list (map Volume tickers);
            weightedPrice = sum_list (map (\<lambda>tp. mulDec (Price tp) (Volume tp)) tickers)
        in if volumeSum = 0 then Inl ErrZeroVolume
           else Inr (quoDec weightedPrice volumeSum))"

text \<open>The three ATOM observations of \<^verbatim>\<open>TestComputeVWAP\<close>.\<close>

definition atomTickers :: "TickerPrice list" where
  "atomTickers =
     [\<lparr>Price = mkDec 2821000000 8, Volume = mkDec 274910278000000 8, Time = 0\<rparr>,
      \<lparr>Price = mkDec 28268700 6, Volume = mkDec 17827753314385 8, Time = 0\<rparr>,
      \<lparr>Price = mkDec 28168700 6, Volume = mkDec 474910253314385 8, Time = 0\<rparr>]"

section \<open>Cross-venue consensus\<close>

definition maxApproxRootIterations :: nat where
  "maxApproxRootIterations = 100"

text \<open>
  The decimal type's square root, \<^verbatim>\<open>ApproxSqrt\<close>: Newton's iteration from the guess 1,
  stopped when the last correction is at most one unit of the last place or after
  \<open>maxApproxRootIterations\<close> rounds. \<open>approxLoop\<close> is its \<^verbatim>\<open>for\<close> loop; the power
  \<open>guess\<^sup>1\<close> of the loop body is \<open>guess\<close> itself, replaced by the smallest decimal when
  it is zero.
\<close>

function approxLoop :: "Dec \<Rightarrow> Dec \<Rightarrow> Dec \<Rightarrow> nat \<Rightarrow> Dec" where
  "approxLoop d guess delta iter =
     (if \<bar>delta\<bar> > 1 \<and> iter < maxApproxRootIterations then
        let prev = (if guess = 0 then 1 else guess);
            delta' = quoInt64 (quoDec d prev - guess) 2
        in approxLoop d (guess + delta') delta' (Suc iter)
      else guess)"
  by pat_completeness auto
termination
  by (relation "measure (\<lambda>(d, guess, delta, iter). maxApproxRootIterations - iter)") auto

declare approxLoop.simps [simp del]

definition ApproxSqrt :: "Dec \<Rightarrow> Dec" where
  "ApproxSqrt d =
     (if d < 0 then
        (if - d = precisionReuse then d
         else - approxLoop (- d) precisionReuse precisionReuse 0)
      else if d = 0 \<or> d = precisionReuse then d
      else approxLoop d precisionReuse precisionReuse 0)"

text \<open>
  The Cross-Venue Price Matrix is a Go map from venue name to a map from pair symbol to
  price. It is modelled as an association list of association lists, read with
  \<open>map_of\<close>; a well-formed matrix has pairwise distinct venue names, as the keys of a
  map are.
\<close>

type_synonym Name = string

type_synonym PriceMatrix = "(Name \<times> (string \<times> Dec) list) list"

text \<open>The prices reported for one pair, one per venue that has the pair.\<close>

definition pricesFor :: "PriceMatrix \<Rightarrow> string \<Rightarrow> Dec list" where
  "pricesFor prices base =
     concat (map (\<lambda>(name, m). case map_of m base of None \<Rightarrow> [] | Some p \<Rightarrow> [p]) prices)"

text \<open>The venues that report a price for one pair.\<close>

definition reporters :: "PriceMatrix \<Rightarrow> string \<Rightarrow> Name set" where
  "reporters prices base =
     set (map fst (filter (\<lambda>(name, m). map_of m base \<noteq> None) prices))"

definition meanOf :: "Dec list \<Rightarrow> Dec" where
  "meanOf ps = quoInt64 (sum_list ps) (int (length ps))"

definition varianceOf :: "Dec list \<Rightarrow> Dec" where
  "varianceOf ps =
     quoInt64 (sum_list (map (\<lambda>p. mulDec (p - meanOf ps) (p - meanOf ps)) ps))
       (int (length ps))"

text \<open>
  Modelled from the spec: \<^verbatim>\<open>StandardDeviation\<close> is called by the test file but its
  body is not among the sources. The spec (4.4) gives, for each pair with \<open>n \<ge> 3\<close>
  reporting venues, \<open>mean = (\<Sum> price\<^sub>i) / n\<close> and
  \<open>deviation = sqrt ((\<Sum> (price\<^sub>i - mean)\<^sup>2) / n)\<close> in decimal arithmetic, and no entry in
  either result for a pair with fewer than 3 reporting venues; it returns the deviations,
  the means and an error. The division by the count is the decimal type's division by
  an integer and the root is its \<open>ApproxSqrt\<close>.
\<close>

definition StandardDeviation ::
  "PriceMatrix \<Rightarrow> error + ((string \<rightharpoonup> Dec) \<times> (string \<rightharpoonup> Dec))" where
  "StandardDeviation prices =
     Inr ((\<lambda>base. let ps = pricesFor prices base in
                   if length ps < 3 then None else Some (ApproxSqrt (varianceOf ps))),
          (\<lambda>base. let ps = pricesFor prices base in
                   if length ps < 3 then None else Some (meanOf ps)))"

text \<open>The matrices of \<^verbatim>\<open>TestStandardDeviation\<close>: "not enough prices" and "some prices".\<close>

definition notEnoughPrices :: PriceMatrix where
  "notEnoughPrices =
     [(''binance'', [(''ATOM'', mkDec 2821000000 8), (''UMEE'', mkDec 113000000 8),
                     (''LUNA'', mkDec 6487000000 8)]),
      (''kraken'', [(''ATOM'', mkDec 2823000000 8), (''UMEE'', mkDec 113050000 8),
                    (''LUNA'', mkDec 6485000000 8)])]"

definition somePrices :: PriceMatrix where
  "somePrices =
     [(''binance'', [(''ATOM'', mkDec 2821000000 8), (''UMEE'', mkDec 113000000 8),
                     (''LUNA'', mkDec 6487000000 8)]),
      (''kraken'', [(''ATOM'', mkDec 2823000000 8), (''UMEE'', mkDec 113050000 8)]),
      (''osmosis'', [(''ATOM'', mkDec 2840000000 8), (''UMEE'', mkDec 114000000 8),
                     (''LUNA'', mkDec 6410000000 8)])]"

section \<open>The Astroport provider\<close>

subsection \<open>Venue records\<close>

text \<open>
  The \<^verbatim>\<open>float64\<close> fields are decoded from JSON numbers, which are finite; a finite
  \<^verbatim>\<open>float64\<close> is a rational number and is compared as one, so these fields are
  modelled as \<open>rat\<close>. Strings are byte lists.
\<close>

record AstroportQuery =
  Query :: string

record AstroportToken =
  token_Address :: string
  token_Symbol :: string
  token_Price :: rat
  token_Decimals :: rat

record AstroportTokensData =
  Tokens :: "AstroportToken list"

record AstroportTokensResponse =
  tokens_Data :: AstroportTokensData

record AstroportAsset =
  asset_Address :: string
  asset_Amount :: string
  asset_Symbol :: string

record AstroportPool =
  pool_Volume :: rat
  pool_Assets :: "AstroportAsset list"
  pool_Liquidity :: rat

record AstroportPoolsData =
  Pools :: "AstroportPool list"

record AstroportPoolsResponse =
  pools_Data :: AstroportPoolsData

subsection \<open>Collaborators outside the file\<close>

text \<open>A Go panic aborts \<^verbatim>\<open>Poll\<close>; it is not an \<^verbatim>\<open>error\<close> value.\<close>

datatype panic =
    IndexOutOfRange
  | DivisionByZero
  | IntOverflow
  | ConversionPanic

text \<open>
  What \<^verbatim>\<open>Poll\<close> calls but the file does not define is a parameter: the JSON encoder
  and decoders, the transport \<^verbatim>\<open>httpPost\<close> (its answer depends on the request), the
  clock, the conversion \<^verbatim>\<open>floatToDec\<close> (which may panic) and the bit-length cap of the
  decimal library. So are \<^verbatim>\<open>strings.ToLower\<close> and \<^verbatim>\<open>strings.ToUpper\<close> of Go's standard
  library: they map every Unicode letter, by tables that are not modelled. What
  \<^verbatim>\<open>Poll\<close> prints on a transport error is not modelled.
\<close>

record env =
  json_Marshal :: "AstroportQuery \<Rightarrow> error + string"
  httpPost :: "string \<Rightarrow> string \<Rightarrow> error + string"
  unmarshalTokens :: "string \<Rightarrow> error + AstroportTokensResponse"
  unmarshalPools :: "string \<Rightarrow> error + AstroportPoolsResponse"
  time_Now :: int
  floatToDec :: "rat \<Rightarrow> panic + Dec"
  maxDecBitLen :: nat
  strings_ToLower :: "string \<Rightarrow> string"
  strings_ToUpper :: "string \<Rightarrow> string"

text \<open>\<^verbatim>\<open>Dec.Quo\<close>: panics on a zero divisor and on a quotient wider than the cap.\<close>

definition Quo :: "env \<Rightarrow> Dec \<Rightarrow> Dec \<Rightarrow> panic + Dec" where
  "Quo env d d2 =
     (if d2 = 0 then Inl DivisionByZero
      else
        let chopped = quoDec d d2 in
        if 2 ^ maxDecBitLen env \<le> \<bar>chopped\<bar> then Inl IntOverflow else Inr chopped)"

text \<open>A string has an upper-case character when lower-casing changes it; it is
  entirely lower-case when lower-casing leaves it as it is.\<close>

definition hasUpper :: "env \<Rightarrow> string \<Rightarrow> bool" where
  "hasUpper env s = (strings_ToLower env s \<noteq> s)"

subsection \<open>The provider and its poll cycle\<close>

text \<open>
  Of the embedded \<^verbatim>\<open>provider\<close>, \<^verbatim>\<open>Poll\<close> reads the REST endpoint and the configured
  pairs (a map keyed by the upper-case pair symbol) and writes the ticker store. The
  mutex is not modelled: a poll cycle is followed alone.
\<close>

record 'cp provider =
  endpoints_Rest :: string
  pairs :: "string \<rightharpoonup> 'cp"
  tickers :: "string \<rightharpoonup> TickerPrice"

definition tokenQuery :: AstroportQuery where
  "tokenQuery =
     \<lparr>Query = ''query { tokens(chains: \"phoenix-1\") { priceUsd symbol tokenAddr } }''\<rparr>"

definition poolQuery :: AstroportQuery where
  "poolQuery =
     \<lparr>Query = ''query { pools(chains: \"phoenix-1\") { poolLiquidityUsd dayVolumeUsd assets { symbol address amount } } }''\<rparr>"

definition whitelist :: "string \<rightharpoonup> string" where
  "whitelist =
     map_of
       [(''USDC'', ''ibc/b3504e092456ba618cc28ac671a71fb08c6ca0fd0be7c8a5b5a3e2dd933cc9e4''),
        (''LUNA'', ''uluna'')]"

text \<open>The test of the first loop that makes it \<^verbatim>\<open>continue\<close>: the symbol is in the
  allow-list and the address is not the allow-listed one.\<close>

definition excluded :: "AstroportToken \<Rightarrow> bool" where
  "excluded token =
     (case whitelist (token_Symbol token) of
        None \<Rightarrow> False
      | Some address \<Rightarrow> token_Address token \<noteq> address)"

text \<open>The first loop: the map of admitted tokens, keyed by the token's address.\<close>

fun collectTokens ::
  "AstroportToken list \<Rightarrow> (string \<rightharpoonup> AstroportToken) \<Rightarrow> (string \<rightharpoonup> AstroportToken)" where
  "collectTokens [] tokens = tokens"
| "collectTokens (token # rest) tokens =
     (if excluded token then collectTokens rest tokens
      else collectTokens rest (tokens(token_Address token \<mapsto> token)))"

definition emptyAsset :: AstroportAsset where
  "emptyAsset = \<lparr>asset_Address = [], asset_Amount = [], asset_Symbol = []\<rparr>"

text \<open>\<^verbatim>\<open>getPoolAssets\<close> reads \<^verbatim>\<open>Assets[0]\<close> and \<^verbatim>\<open>Assets[1]\<close> before anything else: a
  pool with fewer than two assets panics.\<close>

definition getPoolAssets ::
  "env \<Rightarrow> (string \<rightharpoonup> 'cp) \<Rightarrow> AstroportPool
   \<Rightarrow> panic + (AstroportAsset \<times> AstroportAsset \<times> bool)" where
  "getPoolAssets env prs pool =
     (case pool_Assets pool of
        a1 # a2 # others \<Rightarrow>
          if prs (strings_ToUpper env (asset_Symbol a1 @ asset_Symbol a2)) \<noteq> None
          then Inr (a1, a2, True)
          else if prs (strings_ToUpper env (asset_Symbol a2 @ asset_Symbol a1)) \<noteq> None
          then Inr (a2, a1, True)
          else Inr (emptyAsset, emptyAsset, False)
      | _ \<Rightarrow> Inl IndexOutOfRange)"

text \<open>The body of the second loop, for one pool: the ticker store after it, or a panic.
  Returning the store unchanged is the loop's \<^verbatim>\<open>continue\<close>.\<close>

definition pollPool ::
  "env \<Rightarrow> (string \<rightharpoonup> 'cp) \<Rightarrow> (string \<rightharpoonup> AstroportToken) \<Rightarrow> int \<Rightarrow> AstroportPool
   \<Rightarrow> (string \<rightharpoonup> TickerPrice) \<Rightarrow> panic + (string \<rightharpoonup> TickerPrice)" where
  "pollPool env prs tokens timestamp pool tks =
     (if pool_Liquidity pool < 100000 then Inr tks
      else
        case getPoolAssets env prs pool of
          Inl pn \<Rightarrow> Inl pn
        | Inr (poolAsset1, poolAsset2, ok) \<Rightarrow>
            if \<not> ok then Inr tks
            else
              case tokens (strings_ToLower env (asset_Address poolAsset1)) of
                None \<Rightarrow> Inr tks
              | Some token1 \<Rightarrow>
                  case tokens (strings_ToLower env (asset_Address poolAsset2)) of
                    None \<Rightarrow> Inr tks
                  | Some token2 \<Rightarrow>
                      let symbol =
                            strings_ToUpper env (asset_Symbol poolAsset1 @ asset_Symbol poolAsset2)
                      in
                      case floatToDec env (token_Price token1) of
                        Inl pn \<Rightarrow> Inl pn
                      | Inr price1 \<Rightarrow>
                          case floatToDec env (token_Price token2) of
                            Inl pn \<Rightarrow> Inl pn
                          | Inr price2 \<Rightarrow>
                              case Quo env price1 price2 of
                                Inl pn \<Rightarrow> Inl pn
                              | Inr price \<Rightarrow>
                                  case floatToDec env (pool_Volume pool) of
                                    Inl pn \<Rightarrow> Inl pn
                                  | Inr vol \<Rightarrow>
                                      case Quo env vol price1 of
                                        Inl pn \<Rightarrow> Inl pn
                                      | Inr volume \<Rightarrow>
                                          Inr (tks(symbol \<mapsto>
                                            \<lparr>Price = price, Volume = volume,
                                             Time = timestamp\<rparr>)))"

text \<open>The second loop: a panic stops it, and what earlier pools wrote stays written.\<close>

fun pollPools ::
  "env \<Rightarrow> (string \<rightharpoonup> 'cp) \<Rightarrow> (string \<rightharpoonup> AstroportToken) \<Rightarrow> int \<Rightarrow> AstroportPool list
   \<Rightarrow> (string \<rightharpoonup> TickerPrice) \<Rightarrow> panic option \<times> (string \<rightharpoonup> TickerPrice)" where
  "pollPools env prs tokens timestamp [] tks = (None, tks)"
| "pollPools env prs tokens timestamp (pool # rest) tks =
     (case pollPool env prs tokens timestamp pool tks of
        Inl pn \<Rightarrow> (Some pn, tks)
      | Inr tks' \<Rightarrow> pollPools env prs tokens timestamp rest tks')"

text \<open>How a call of \<^verbatim>\<open>Poll\<close> ends: it returns its \<^verbatim>\<open>error\<close> (\<open>None\<close> for \<^verbatim>\<open>nil\<close>) or
  it panics.\<close>

datatype outcome = Returned "error option" | Panicked panic

definition Poll :: "env \<Rightarrow> 'cp provider \<Rightarrow> outcome \<times> 'cp provider" where
  "Poll env p =
     (let url = endpoints_Rest p @ ''/graphql'' in
      case json_Marshal env tokenQuery of
        Inl err \<Rightarrow> (Returned (Some err), p)
      | Inr data \<Rightarrow>
      case httpPost env url data of
        Inl err \<Rightarrow> (Returned (Some err), p)
      | Inr content \<Rightarrow>
      case unmarshalTokens env content of
        Inl err \<Rightarrow> (Returned (Some err), p)
      | Inr tokensResponse \<Rightarrow>
      case json_Marshal env poolQuery of
        Inl err \<Rightarrow> (Returned (Some err), p)
      | Inr data' \<Rightarrow>
      case httpPost env url data' of
        Inl err \<Rightarrow> (Returned (Some err), p)
      | Inr content' \<Rightarrow>
      case unmarshalPools env content' of
        Inl err \<Rightarrow> (Returned (Some err), p)
      | Inr poolsResponse \<Rightarrow>
          let tokens = collectTokens (Tokens (tokens_Data tokensResponse)) Map.empty;
              timestamp = time_Now env
          in case pollPools env (pairs p) tokens timestamp
                    (Pools (pools_Data poolsResponse)) (tickers p) of
               (None, tks) \<Rightarrow> (Returned None, p\<lparr>tickers := tks\<rparr>)
             | (Some pn, tks) \<Rightarrow> (Panicked pn, p\<lparr>tickers := tks\<rparr>))"

subsection \<open>Example venues\<close>

text \<open>
  On a string of ASCII bytes \<^verbatim>\<open>strings.ToLower\<close> and \<^verbatim>\<open>strings.ToUpper\<close> change the
  letters \<^verbatim>\<open>A\<close> to \<^verbatim>\<open>Z\<close> and \<^verbatim>\<open>a\<close> to \<^verbatim>\<open>z\<close> and nothing else. The example venues,
  whose strings are all ASCII, use these two functions.
\<close>

definition upperLetters :: string where
  "upperLetters = ''ABCDEFGHIJKLMNOPQRSTUVWXYZ''"

definition lowerLetters :: string where
  "lowerLetters = ''abcdefghijklmnopqrstuvwxyz''"

definition toLowerChar :: "char \<Rightarrow> char" where
  "toLowerChar c = (case map_of (zip upperLetters lowerLetters) c of None \<Rightarrow> c | Some l \<Rightarrow> l)"

definition toUpperChar :: "char \<Rightarrow> char" where
  "toUpperChar c = (case map_of (zip lowerLetters upperLetters) c of None \<Rightarrow> c | Some u \<Rightarrow> u)"

definition asciiToLower :: "string \<Rightarrow> string" where
  "asciiToLower s = map toLowerChar s"

definition asciiToUpper :: "string \<Rightarrow> string" where
  "asciiToUpper s = map toUpperChar s"

text \<open>
  An environment for the examples: the venue answers every request, and its two answers
  decode to the given tokens and pools; a float is converted by cutting it to 18
  fractional digits, and strings are ASCII.
\<close>

definition venueEnv :: "AstroportToken list \<Rightarrow> AstroportPool list \<Rightarrow> env" where
  "venueEnv toks pls =
     \<lparr>json_Marshal = (\<lambda>q. Inr (Query q)),
      httpPost = (\<lambda>url data. Inr data),
      unmarshalTokens = (\<lambda>content. Inr \<lparr>tokens_Data = \<lparr>Tokens = toks\<rparr>\<rparr>),
      unmarshalPools = (\<lambda>content. Inr \<lparr>pools_Data = \<lparr>Pools = pls\<rparr>\<rparr>),
      time_Now = 1700000000,
      floatToDec = (\<lambda>f. Inr \<lfloor>f * 10 ^ 18\<rfloor>),
      maxDecBitLen = 315,
      strings_ToLower = asciiToLower,
      strings_ToUpper = asciiToUpper\<rparr>"

text \<open>The same venue when the transport fails, and when its first answer does not
  decode.\<close>

definition downEnv :: env where
  "downEnv = (venueEnv [] [])\<lparr>httpPost := (\<lambda>url data. Inl (ErrTransport ''timeout''))\<rparr>"

definition garbledEnv :: env where
  "garbledEnv =
     (venueEnv [] [])\<lparr>unmarshalTokens := (\<lambda>content. Inl (ErrDecode ''unexpected end of JSON input''))\<rparr>"

definition lunaTicker :: TickerPrice where
  "lunaTicker = \<lparr>Price = mkDec 2 0, Volume = mkDec 500000 0, Time = 1700000000\<rparr>"

text \<open>A provider configured for the pair LUNA/USDC, with an empty store and with a
  store that holds an earlier observation.\<close>

definition lunaProvider :: "unit provider" where
  "lunaProvider =
     \<lparr>endpoints_Rest = ''https://develop-multichain-api.astroport.fi'',
      pairs = [''LUNAUSDC'' \<mapsto> ()],
      tickers = Map.empty\<rparr>"

definition stockedProvider :: "unit provider" where
  "stockedProvider = lunaProvider\<lparr>tickers := [''LUNAUSDC'' \<mapsto> lunaTicker\<lparr>Time := 1699999990\<rparr>]\<rparr>"

definition usdcAddress :: string where
  "usdcAddress = ''ibc/b3504e092456ba618cc28ac671a71fb08c6ca0fd0be7c8a5b5a3e2dd933cc9e4''"

definition lunaToken :: AstroportToken where
  "lunaToken =
     \<lparr>token_Address = ''uluna'', token_Symbol = ''LUNA'', token_Price = 2, token_Decimals = 6\<rparr>"

definition usdcToken :: AstroportToken where
  "usdcToken =
     \<lparr>token_Address = usdcAddress, token_Symbol = ''USDC'', token_Price = 1,
      token_Decimals = 6\<rparr>"

text \<open>Two records that carry the symbol LUNA under another address: a contract address,
  and the allow-listed address in upper case.\<close>

definition spoofToken :: AstroportToken where
  "spoofToken =
     \<lparr>token_Address = ''terra1spoof'', token_Symbol = ''LUNA'', token_Price = 5,
      token_Decimals = 6\<rparr>"

definition upperToken :: AstroportToken where
  "upperToken =
     \<lparr>token_Address = ''ULUNA'', token_Symbol = ''LUNA'', token_Price = 5,
      token_Decimals = 6\<rparr>"

text \<open>A record outside the allow-list that shares the address of \<open>spoofToken\<close>.\<close>

definition cloneToken :: AstroportToken where
  "cloneToken =
     \<lparr>token_Address = ''terra1spoof'', token_Symbol = ''FOO'', token_Price = 2,
      token_Decimals = 6\<rparr>"

text \<open>A token outside the allow-list whose address has upper-case letters.\<close>

definition astroToken :: AstroportToken where
  "astroToken =
     \<lparr>token_Address = ''terra1ASTRO'', token_Symbol = ''ASTRO'', token_Price = 1,
      token_Decimals = 6\<rparr>"

text \<open>A provider configured for the pair ASTRO/USDC, and a pool of that pair whose first
  asset sits at the very address of \<open>astroToken\<close>.\<close>

definition astroProvider :: "unit provider" where
  "astroProvider = lunaProvider\<lparr>pairs := [''ASTROUSDC'' \<mapsto> ()]\<rparr>"

definition astroAsset :: AstroportAsset where
  "astroAsset =
     \<lparr>asset_Address = ''terra1ASTRO'', asset_Amount = ''1000'', asset_Symbol = ''ASTRO''\<rparr>"

definition lunaAsset :: AstroportAsset where
  "lunaAsset = \<lparr>asset_Address = ''uluna'', asset_Amount = ''1000'', asset_Symbol = ''LUNA''\<rparr>"

definition usdcAsset :: AstroportAsset where
  "usdcAsset = \<lparr>asset_Address = usdcAddress, asset_Amount = ''2000'', asset_Symbol = ''USDC''\<rparr>"

definition lunaPool :: AstroportPool where
  "lunaPool =
     \<lparr>pool_Volume = 1000000, pool_Assets = [lunaAsset, usdcAsset], pool_Liquidity = 100000\<rparr>"

text \<open>The LUNA/USDC pool just under the liquidity floor, and with a single asset.\<close>

definition thinPool :: AstroportPool where
  "thinPool = lunaPool\<lparr>pool_Liquidity := 99999\<rparr>"

definition lonelyPool :: AstroportPool where
  "lonelyPool = lunaPool\<lparr>pool_Assets := [lunaAsset]\<rparr>"

text \<open>Pools whose first asset is called LUNA and sits at the address of \<open>spoofToken\<close>,
  and at the address of \<open>upperToken\<close>.\<close>

definition spoofAsset :: AstroportAsset where
  "spoofAsset =
     \<lparr>asset_Address = ''terra1spoof'', asset_Amount = ''1000'', asset_Symbol = ''LUNA''\<rparr>"

definition spoofPool :: AstroportPool where
  "spoofPool = lunaPool\<lparr>pool_Assets := [spoofAsset, usdcAsset]\<rparr>"

definition upperAsset :: AstroportAsset where
  "upperAsset = \<lparr>asset_Address = ''ULUNA'', asset_Amount = ''1000'', asset_Symbol = ''LUNA''\<rparr>"

definition upperPool :: AstroportPool where
  "upperPool = lunaPool\<lparr>pool_Assets := [upperAsset, usdcAsset]\<rparr>"

definition astroPool :: AstroportPool where
  "astroPool = lunaPool\<lparr>pool_Assets := [astroAsset, usdcAsset]\<rparr>"

text \<open>The two tokens of the pair when the venue quotes one of them at 0.\<close>

definition zeroUsdcToken :: AstroportToken where
  "zeroUsdcToken = usdcToken\<lparr>token_Price := 0\<rparr>"

definition zeroLunaToken :: AstroportToken where
  "zeroLunaToken = lunaToken\<lparr>token_Price := 0\<rparr>"

section \<open>Properties of the VWAP aggregator\<close>

lemma sum_list_map_mset:
  fixes f :: "'a \<Rightarrow> int"
  assumes "mset xs = mset ys"
  shows "sum_list (map f xs) = sum_list (map f ys)"
proof -
  have "sum_mset (image_mset f (mset xs)) = sum_mset (image_mset f (mset ys))"
    using assms by simp
  then show ?thesis
    by (simp only: mset_map [symmetric] sum_mset_sum_list)
qed

text \<open>
  Claim C3. On the three ATOM observations of the test, \<open>{28.21, 2749102.78}\<close>,
  \<open>{28.2687, 178277.53314385}\<close> and \<open>{28.1687, 4749102.53314385}\<close>, the aggregator
  returns no error and the decimal \<open>28.185812745610043621\<close>; that decimal lies within
  half a unit of the last place of the exact quotient of the weighted sum by the
  volume sum.
\<close>

theorem ComputeVWAP_atom:
  "ComputeVWAP atomTickers = Inr (mkDec 28185812745610043621 18)
   \<and> \<bar>(of_int (mkDec 28185812745610043621 18) :: rat) / 10 ^ 18
        - (2821 / 100 * (274910278 / 100) + 282687 / 10000 * (17827753314385 / 10 ^ 8)
           + 281687 / 10000 * (474910253314385 / 10 ^ 8))
          / (274910278 / 100 + 17827753314385 / 10 ^ 8 + 474910253314385 / 10 ^ 8)\<bar>
      \<le> 1 / (2 * 10 ^ 18)"
proof
  show "ComputeVWAP atomTickers = Inr (mkDec 28185812745610043621 18)"
    by (simp add: ComputeVWAP_def atomTickers_def mkDec_def mulDec_def quoDec_def
        chopPrecisionAndRound_def chopPos_def bigQuo_def precisionReuse_def
        fivePrecision_def Let_def)
next
  show "\<bar>(of_int (mkDec 28185812745610043621 18) :: rat) / 10 ^ 18
        - (2821 / 100 * (274910278 / 100) + 282687 / 10000 * (17827753314385 / 10 ^ 8)
           + 281687 / 10000 * (474910253314385 / 10 ^ 8))
          / (274910278 / 100 + 17827753314385 / 10 ^ 8 + 474910253314385 / 10 ^ 8)\<bar>
      \<le> 1 / (2 * 10 ^ 18)"
    by (simp add: mkDec_def)
qed

text \<open>
  Claim C7. The aggregator is invariant under permutation of its input: two lists with
  the same observations in any order give the same result, value and error alike.
\<close>

theorem ComputeVWAP_permutation:
  assumes "mset xs = mset ys"
  shows "ComputeVWAP xs = ComputeVWAP ys"
proof -
  have e: "(xs = []) = (ys = [])"
    using assms by (metis mset_zero_iff)
  have v: "sum_list (map Volume xs) = sum_list (map Volume ys)"
    using assms by (rule sum_list_map_mset)
  have w: "sum_list (map (\<lambda>tp. mulDec (Price tp) (Volume tp)) xs)
         = sum_list (map (\<lambda>tp. mulDec (Price tp) (Volume tp)) ys)"
    using assms by (rule sum_list_map_mset)
  show ?thesis
    unfolding ComputeVWAP_def e v w ..
qed

theorem ComputeVWAP_permutation_witness:
  "mset atomTickers = mset (rev atomTickers)
   \<and> ComputeVWAP atomTickers = ComputeVWAP (rev atomTickers)
   \<and> ComputeVWAP (rev atomTickers) = Inr (mkDec 28185812745610043621 18)"
proof -
  have h: "mset atomTickers = mset (rev atomTickers)" by simp
  have r: "ComputeVWAP atomTickers = Inr (mkDec 28185812745610043621 18)"
    by (simp add: ComputeVWAP_def atomTickers_def mkDec_def mulDec_def quoDec_def
        chopPrecisionAndRound_def chopPos_def bigQuo_def precisionReuse_def
        fivePrecision_def Let_def)
  show ?thesis
    using h r ComputeVWAP_permutation [OF h] by simp
qed

section \<open>Properties of the cross-venue consensus\<close>

lemma reporters_Nil: "reporters [] base = {}"
  by (simp add: reporters_def)

lemma reporters_Cons:
  "reporters ((name, m) # prices) base =
     (if map_of m base = None then reporters prices base
      else insert name (reporters prices base))"
  by (simp add: reporters_def)

lemma reporters_subset: "reporters prices base \<subseteq> fst ` set prices"
  by (auto simp: reporters_def)

lemma finite_reporters: "finite (reporters prices base)"
  by (rule finite_subset [OF reporters_subset]) simp

lemma pricesFor_Nil: "pricesFor [] base = []"
  by (simp add: pricesFor_def)

lemma pricesFor_Cons:
  "pricesFor ((name, m) # prices) base =
     (case map_of m base of None \<Rightarrow> [] | Some p \<Rightarrow> [p]) @ pricesFor prices base"
  by (simp add: pricesFor_def)

text \<open>In a well-formed matrix the number of prices collected for a pair is the number
  of venues that report it.\<close>

lemma length_pricesFor:
  "distinct (map fst prices) \<Longrightarrow> length (pricesFor prices base) = card (reporters prices base)"
proof (induction prices)
  case Nil
  show ?case by (simp add: pricesFor_Nil reporters_Nil)
next
  case (Cons v prices)
  obtain name m where v: "v = (name, m)" by (cases v)
  from Cons.prems v have fresh: "name \<notin> reporters prices base"
    using reporters_subset [of prices base] by auto
  from Cons have IH: "length (pricesFor prices base) = card (reporters prices base)"
    by simp
  show ?case
    unfolding v pricesFor_Cons reporters_Cons
    using fresh IH finite_reporters [of prices base]
    by (cases "map_of m base") simp_all
qed

lemma length_pricesFor_le: "length (pricesFor prices base) \<le> length prices"
proof (induction prices)
  case Nil
  show ?case by (simp add: pricesFor_Nil)
next
  case (Cons v prices)
  obtain name m where v: "v = (name, m)" by (cases v)
  show ?case
    unfolding v pricesFor_Cons using Cons.IH
    by (cases "map_of m base") simp_all
qed

text \<open>
  Claim C1. For every well-formed price matrix, \<open>StandardDeviation\<close> returns no error;
  a pair reported by fewer than 3 distinct venues has no entry in the deviations and no
  entry in the means, so an entry in either result means at least 3 reporting venues;
  and a matrix of 2 venues gives two empty results.
\<close>

theorem StandardDeviation_quorum:
  assumes "distinct (map fst prices)"
  shows "\<exists>deviations means.
           StandardDeviation prices = Inr (deviations, means)
           \<and> (\<forall>base. card (reporters prices base) < 3 \<longrightarrow>
                 deviations base = None \<and> means base = None)
           \<and> (\<forall>base. deviations base \<noteq> None \<or> means base \<noteq> None \<longrightarrow>
                 3 \<le> card (reporters prices base))
           \<and> (length prices = 2 \<longrightarrow> deviations = Map.empty \<and> means = Map.empty)"
proof -
  have two: "length prices = 2 \<Longrightarrow> length (pricesFor prices base) < 3" for base
    using length_pricesFor_le [of prices base] by simp
  show ?thesis
    unfolding StandardDeviation_def
    using two by (auto simp: Let_def length_pricesFor [OF assms] split: if_splits)
qed

theorem StandardDeviation_quorum_witness:
  "distinct (map fst notEnoughPrices) \<and> length notEnoughPrices = 2
   \<and> StandardDeviation notEnoughPrices = Inr (Map.empty, Map.empty)
   \<and> distinct (map fst somePrices) \<and> card (reporters somePrices ''LUNA'') < 3
   \<and> (\<exists>deviations means.
         StandardDeviation somePrices = Inr (deviations, means)
         \<and> deviations ''LUNA'' = None \<and> means ''LUNA'' = None)"
proof -
  have d2: "distinct (map fst notEnoughPrices)"
    by (simp add: notEnoughPrices_def)
  have l2: "length notEnoughPrices = 2"
    by (simp add: notEnoughPrices_def)
  have r2: "StandardDeviation notEnoughPrices = Inr (Map.empty, Map.empty)"
    using StandardDeviation_quorum [OF d2] l2 by auto
  have d3: "distinct (map fst somePrices)"
    by (simp add: somePrices_def)
  have c3: "card (reporters somePrices ''LUNA'') < 3"
    by (simp add: somePrices_def reporters_Cons reporters_Nil)
  have r3: "\<exists>deviations means.
         StandardDeviation somePrices = Inr (deviations, means)
         \<and> deviations ''LUNA'' = None \<and> means ''LUNA'' = None"
    using StandardDeviation_quorum [OF d3] c3 by blast
  show ?thesis
    using d2 l2 r2 d3 c3 r3 by blast
qed

lemma meanOf_mset:
  assumes "mset ps = mset qs"
  shows "meanOf ps = meanOf qs"
proof -
  have "sum_list (map (\<lambda>p. p) ps) = sum_list (map (\<lambda>p. p) qs)"
    using assms by (rule sum_list_map_mset)
  moreover have "length ps = length qs"
    using assms by (rule mset_eq_length)
  ultimately show ?thesis
    by (simp add: meanOf_def)
qed

lemma varianceOf_mset:
  assumes "mset ps = mset qs"
  shows "varianceOf ps = varianceOf qs"
proof -
  have m: "meanOf ps = meanOf qs"
    using assms by (rule meanOf_mset)
  have l: "length ps = length qs"
    using assms by (rule mset_eq_length)
  have "sum_list (map (\<lambda>p. mulDec (p - meanOf qs) (p - meanOf qs)) ps)
      = sum_list (map (\<lambda>p. mulDec (p - meanOf qs) (p - meanOf qs)) qs)"
    using assms by (rule sum_list_map_mset)
  then show ?thesis
    by (simp add: varianceOf_def m l)
qed

lemmas dec_defs = mkDec_def mulDec_def quoDec_def quoInt64_def
  chopPrecisionAndRound_def chopPos_def bigQuo_def precisionReuse_def fivePrecision_def

lemma atom_mean:
  "meanOf [mkDec 2821 2, mkDec 2823 2, mkDec 2840 2] = mkDec 2828 2"
  by (simp add: meanOf_def dec_defs)

text \<open>The squared distances to the mean add up to \<open>0.0218\<close>, and the variance is that sum
  divided by the number of venues, 3.\<close>

lemma atom_variance:
  "varianceOf [mkDec 2821 2, mkDec 2823 2, mkDec 2840 2] = quoInt64 (mkDec 218 4) 3"
  by (simp add: varianceOf_def meanOf_def dec_defs)

lemma atom_variance_value: "quoInt64 (mkDec 218 4) 3 = mkDec 7266666666666666 18"
  by (simp add: dec_defs)

lemma atom_sqrt: "ApproxSqrt (mkDec 7266666666666666 18) = mkDec 85244745683629475 18"
  by code_simp

text \<open>
  Claim C4. For a pair whose reported prices are \<open>28.21\<close>, \<open>28.23\<close> and \<open>28.40\<close>, from
  exactly 3 venues in any order, \<open>StandardDeviation\<close> returns the mean \<open>28.28\<close> and the
  deviation \<open>0.085244745683629475\<close>, which is the root of the sum of squared distances
  \<open>0.0218\<close> divided by 3, the number of venues.
\<close>

theorem StandardDeviation_atom:
  assumes "mset (pricesFor prices base) = {#mkDec 2821 2, mkDec 2823 2, mkDec 2840 2#}"
  shows "\<exists>deviations means.
           StandardDeviation prices = Inr (deviations, means)
           \<and> means base = Some (mkDec 2828 2)
           \<and> deviations base = Some (mkDec 85244745683629475 18)
           \<and> deviations base = Some (ApproxSqrt (quoInt64 (mkDec 218 4) 3))"
proof -
  let ?qs = "[mkDec 2821 2, mkDec 2823 2, mkDec 2840 2]"
  have ms: "mset (pricesFor prices base) = mset ?qs"
    using assms by simp
  have l: "length (pricesFor prices base) = 3"
    using mset_eq_length [OF ms] by simp
  have m: "meanOf (pricesFor prices base) = mkDec 2828 2"
    using meanOf_mset [OF ms] atom_mean by simp
  have v: "varianceOf (pricesFor prices base) = quoInt64 (mkDec 218 4) 3"
    using varianceOf_mset [OF ms] atom_variance by simp
  have s: "ApproxSqrt (quoInt64 (mkDec 218 4) 3) = mkDec 85244745683629475 18"
    using atom_sqrt atom_variance_value by simp
  show ?thesis
    by (simp add: StandardDeviation_def Let_def l m v s)
qed

lemma somePrices_atom:
  "pricesFor somePrices ''ATOM'' = [mkDec 2821000000 8, mkDec 2823000000 8, mkDec 2840000000 8]"
  by (simp add: pricesFor_def somePrices_def)

theorem StandardDeviation_atom_witness:
  "mset (pricesFor somePrices ''ATOM'') = {#mkDec 2821 2, mkDec 2823 2, mkDec 2840 2#}
   \<and> (\<exists>deviations means.
           StandardDeviation somePrices = Inr (deviations, means)
           \<and> means ''ATOM'' = Some (mkDec 2828 2)
           \<and> deviations ''ATOM'' = Some (mkDec 85244745683629475 18))"
proof -
  have h: "mset (pricesFor somePrices ''ATOM'') = {#mkDec 2821 2, mkDec 2823 2, mkDec 2840 2#}"
    by (simp add: somePrices_atom mkDec_def)
  show ?thesis
    using h StandardDeviation_atom [OF h] by blast
qed

section \<open>Properties of the Astroport provider\<close>

lemma collectTokens_keyed:
  "\<forall>k' t'. m k' = Some t' \<longrightarrow> token_Address t' = k' \<Longrightarrow> collectTokens ts m k = Some t
   \<Longrightarrow> token_Address t = k"
proof (induction ts arbitrary: m)
  case Nil
  then show ?case by simp
next
  case (Cons token rest)
  show ?case
  proof (cases "excluded token")
    case True
    with Cons.prems(2) have "collectTokens rest m k = Some t" by simp
    with Cons.IH [OF Cons.prems(1)] show ?thesis .
  next
    case False
    let ?m = "m(token_Address token \<mapsto> token)"
    from Cons.prems(1) have inv: "\<forall>k' t'. ?m k' = Some t' \<longrightarrow> token_Address t' = k'"
      by auto
    from False Cons.prems(2) have "collectTokens rest ?m k = Some t" by simp
    with Cons.IH [OF inv] show ?thesis .
  qed
qed

lemma collectTokens_origin:
  "collectTokens ts m k = Some t \<Longrightarrow> m k = Some t \<or> (t \<in> set ts \<and> \<not> excluded t)"
proof (induction ts arbitrary: m)
  case Nil
  then show ?case by simp
next
  case (Cons token rest)
  show ?case
  proof (cases "excluded token")
    case True
    with Cons.prems have "collectTokens rest m k = Some t" by simp
    from Cons.IH [OF this] show ?thesis by auto
  next
    case False
    with Cons.prems
    have "collectTokens rest (m(token_Address token \<mapsto> token)) k = Some t" by simp
    from Cons.IH [OF this] False show ?thesis
      by (auto split: if_splits)
  qed
qed

lemma dom_collectTokens:
  "dom (collectTokens ts m) = dom m \<union> token_Address ` {t \<in> set ts. \<not> excluded t}"
  by (induction ts arbitrary: m) auto

lemma toLowerChar_not_upper: "toLowerChar c \<notin> set upperLetters"
proof (cases "map_of (zip upperLetters lowerLetters) c")
  case None
  then have "c \<notin> fst ` set (zip upperLetters lowerLetters)"
    by (simp add: map_of_eq_None_iff)
  moreover have "fst ` set (zip upperLetters lowerLetters) = set upperLetters"
    by (simp add: upperLetters_def lowerLetters_def)
  ultimately show ?thesis
    using None by (simp add: toLowerChar_def)
next
  case (Some l)
  then have "l \<in> set lowerLetters"
    by (meson map_of_SomeD set_zip_rightD)
  moreover have "set lowerLetters \<inter> set upperLetters = {}"
    by (simp add: upperLetters_def lowerLetters_def)
  ultimately show ?thesis
    using Some by (auto simp: toLowerChar_def)
qed

lemma toLowerChar_idem: "toLowerChar (toLowerChar c) = toLowerChar c"
proof -
  have "toLowerChar c \<notin> fst ` set (zip upperLetters lowerLetters)"
    using toLowerChar_not_upper [of c] by (auto dest: set_zip_leftD)
  then have "map_of (zip upperLetters lowerLetters) (toLowerChar c) = None"
    by (simp add: map_of_eq_None_iff)
  then show ?thesis
    by (simp add: toLowerChar_def [of "toLowerChar c"])
qed

lemma asciiToLower_idem: "asciiToLower (asciiToLower s) = asciiToLower s"
  by (simp add: asciiToLower_def toLowerChar_idem)

lemma pollPools_append:
  "pollPools env prs tokens timestamp (xs @ ys) tks =
     (case pollPools env prs tokens timestamp xs tks of
        (None, tks') \<Rightarrow> pollPools env prs tokens timestamp ys tks'
      | (Some pn, tks') \<Rightarrow> (Some pn, tks'))"
  by (induction xs arbitrary: tks) (auto split: sum.splits)

lemma pollPools_skip:
  assumes "\<And>tks. pollPool env prs tokens timestamp pool tks = Inr tks"
  shows "pollPools env prs tokens timestamp (before @ pool # after) tks
       = pollPools env prs tokens timestamp (before @ after) tks"
  by (simp add: pollPools_append assms split: prod.splits option.splits)

lemma pollPool_missing_token:
  assumes "pool_Assets pool = a1 # a2 # others"
    and "tokens (strings_ToLower env (asset_Address a1)) = None
       \<or> tokens (strings_ToLower env (asset_Address a2)) = None"
  shows "pollPool env prs tokens timestamp pool tks = Inr tks"
  using assms
  by (auto simp: pollPool_def getPoolAssets_def split: option.splits sum.splits)

lemma Poll_after_fetch:
  assumes "json_Marshal env tokenQuery = Inr d1"
    and "httpPost env (endpoints_Rest p @ ''/graphql'') d1 = Inr c1"
    and "unmarshalTokens env c1 = Inr tr"
    and "json_Marshal env poolQuery = Inr d2"
    and "httpPost env (endpoints_Rest p @ ''/graphql'') d2 = Inr c2"
    and "unmarshalPools env c2 = Inr pr"
  shows "Poll env p =
     (case pollPools env (pairs p) (collectTokens (Tokens (tokens_Data tr)) Map.empty)
             (time_Now env) (Pools (pools_Data pr)) (tickers p) of
        (None, tks) \<Rightarrow> (Returned None, p\<lparr>tickers := tks\<rparr>)
      | (Some pn, tks) \<Rightarrow> (Panicked pn, p\<lparr>tickers := tks\<rparr>))"
  using assms by (simp add: Poll_def Let_def)

text \<open>
  Claim C2. Whenever a transport step (\<^verbatim>\<open>httpPost\<close>) or a decode step
  (\<^verbatim>\<open>json.Unmarshal\<close>) of a poll cycle fails, be it the first or the second request,
  \<open>Poll\<close> returns that error and the provider, ticker store included, is exactly as it
  was before the call.
\<close>

theorem Poll_fetch_failure:
  assumes "json_Marshal env tokenQuery = Inr d1"
    and "httpPost env (endpoints_Rest p @ ''/graphql'') d1 = Inl err
       \<or> (\<exists>c1. httpPost env (endpoints_Rest p @ ''/graphql'') d1 = Inr c1
            \<and> (unmarshalTokens env c1 = Inl err
               \<or> (\<exists>tr d2. unmarshalTokens env c1 = Inr tr
                     \<and> json_Marshal env poolQuery = Inr d2
                     \<and> (httpPost env (endpoints_Rest p @ ''/graphql'') d2 = Inl err
                        \<or> (\<exists>c2. httpPost env (endpoints_Rest p @ ''/graphql'') d2 = Inr c2
                              \<and> unmarshalPools env c2 = Inl err)))))"
  shows "Poll env p = (Returned (Some err), p)"
  using assms by (auto simp: Poll_def Let_def)

theorem Poll_fetch_failure_witness:
  "httpPost downEnv (endpoints_Rest stockedProvider @ ''/graphql'') (Query tokenQuery)
     = Inl (ErrTransport ''timeout'')
   \<and> Poll downEnv stockedProvider = (Returned (Some (ErrTransport ''timeout'')), stockedProvider)
   \<and> unmarshalTokens garbledEnv (Query tokenQuery)
     = Inl (ErrDecode ''unexpected end of JSON input'')
   \<and> Poll garbledEnv stockedProvider
     = (Returned (Some (ErrDecode ''unexpected end of JSON input'')), stockedProvider)
   \<and> tickers stockedProvider ''LUNAUSDC'' = Some (lunaTicker\<lparr>Time := 1699999990\<rparr>)"
proof -
  let ?url = "endpoints_Rest stockedProvider @ ''/graphql''"
  have m1: "json_Marshal downEnv tokenQuery = Inr (Query tokenQuery)"
    by (simp add: downEnv_def venueEnv_def)
  have h1: "httpPost downEnv ?url (Query tokenQuery) = Inl (ErrTransport ''timeout'')"
    by (simp add: downEnv_def venueEnv_def)
  have m2: "json_Marshal garbledEnv tokenQuery = Inr (Query tokenQuery)"
    by (simp add: garbledEnv_def venueEnv_def)
  have h2: "httpPost garbledEnv ?url (Query tokenQuery) = Inr (Query tokenQuery)"
    by (simp add: garbledEnv_def venueEnv_def)
  have u2: "unmarshalTokens garbledEnv (Query tokenQuery)
              = Inl (ErrDecode ''unexpected end of JSON input'')"
    by (simp add: garbledEnv_def venueEnv_def)
  have r1: "Poll downEnv stockedProvider
              = (Returned (Some (ErrTransport ''timeout'')), stockedProvider)"
    using h1 by (intro Poll_fetch_failure [OF m1]) simp
  have r2: "Poll garbledEnv stockedProvider
              = (Returned (Some (ErrDecode ''unexpected end of JSON input'')), stockedProvider)"
    using h2 u2 by (intro Poll_fetch_failure [OF m2]) simp
  have s: "tickers stockedProvider ''LUNAUSDC'' = Some (lunaTicker\<lparr>Time := 1699999990\<rparr>)"
    by (simp add: stockedProvider_def)
  show ?thesis
    using h1 r1 u2 r2 s by simp
qed

text \<open>
  Claim C6. A pool whose liquidity is strictly below 100000 is skipped whatever its assets
  and whatever the configured pairs: the loop body leaves the ticker store as it is, and
  a poll cycle ends the same with the pool in the venue's answer as without it.
\<close>

theorem low_liquidity_pool_skipped:
  assumes "pool_Liquidity pool < 100000"
  shows "pollPool env prs tokens timestamp pool tks = Inr tks
       \<and> pollPools env prs tokens timestamp (before @ pool # after) tks
         = pollPools env prs tokens timestamp (before @ after) tks"
proof -
  have skip: "pollPool env prs tokens timestamp pool tks' = Inr tks'" for tks'
    using assms by (simp add: pollPool_def)
  from skip pollPools_skip [of env prs tokens timestamp pool before after tks, OF skip]
  show ?thesis by simp
qed

theorem low_liquidity_pool_skipped_witness:
  "pool_Liquidity thinPool < 100000
   \<and> pollPool (venueEnv [lunaToken, usdcToken] [thinPool]) (pairs lunaProvider)
        (collectTokens [lunaToken, usdcToken] Map.empty) 1700000000 thinPool
        (tickers lunaProvider) = Inr (tickers lunaProvider)
   \<and> tickers (snd (Poll (venueEnv [lunaToken, usdcToken] [thinPool]) lunaProvider))
        ''LUNAUSDC'' = None
   \<and> tickers (snd (Poll (venueEnv [lunaToken, usdcToken] [lunaPool]) lunaProvider))
        ''LUNAUSDC'' = Some lunaTicker"
proof -
  have h: "pool_Liquidity thinPool < 100000"
    by (simp add: thinPool_def)
  have a: "tickers (snd (Poll (venueEnv [lunaToken, usdcToken] [thinPool]) lunaProvider))
        ''LUNAUSDC'' = None"
    by code_simp
  have b: "tickers (snd (Poll (venueEnv [lunaToken, usdcToken] [lunaPool]) lunaProvider))
        ''LUNAUSDC'' = Some lunaTicker"
    by code_simp
  have c: "pollPool (venueEnv [lunaToken, usdcToken] [thinPool]) (pairs lunaProvider)
        (collectTokens [lunaToken, usdcToken] Map.empty) 1700000000 thinPool
        (tickers lunaProvider) = Inr (tickers lunaProvider)"
    by (rule low_liquidity_pool_skipped [OF h, THEN conjunct1])
  show ?thesis
    using h a b c by (intro conjI)
qed

text \<open>
  Claim C8. A pool at or above the liquidity floor with fewer than two assets is not
  skipped: \<open>getPoolAssets\<close> reads the first two assets unconditionally, and a poll cycle
  that meets such a pool first panics with an index out of range instead of returning
  an error.
\<close>

theorem Poll_short_assets_panics:
  assumes "json_Marshal env tokenQuery = Inr d1"
    and "httpPost env (endpoints_Rest p @ ''/graphql'') d1 = Inr c1"
    and "unmarshalTokens env c1 = Inr tr"
    and "json_Marshal env poolQuery = Inr d2"
    and "httpPost env (endpoints_Rest p @ ''/graphql'') d2 = Inr c2"
    and "unmarshalPools env c2 = Inr pr"
    and "Pools (pools_Data pr) = pool # rest"
    and "100000 \<le> pool_Liquidity pool"
    and "length (pool_Assets pool) < 2"
  shows "Poll env p = (Panicked IndexOutOfRange, p)"
proof -
  have "getPoolAssets env (pairs p) pool = Inl IndexOutOfRange"
    using assms(9) by (cases "pool_Assets pool" rule: list.exhaust [case_names Nil Cons])
      (auto simp: getPoolAssets_def split: list.splits)
  then have "pollPool env (pairs p) (collectTokens (Tokens (tokens_Data tr)) Map.empty)
               (time_Now env) pool (tickers p) = Inl IndexOutOfRange"
    using assms(8) by (simp add: pollPool_def)
  then show ?thesis
    using assms(7) by (simp add: Poll_after_fetch [OF assms(1-6)])
qed

theorem Poll_short_assets_panics_witness:
  "100000 \<le> pool_Liquidity lonelyPool \<and> length (pool_Assets lonelyPool) < 2
   \<and> Poll (venueEnv [lunaToken, usdcToken] [lonelyPool]) lunaProvider
     = (Panicked IndexOutOfRange, lunaProvider)"
proof -
  let ?env = "venueEnv [lunaToken, usdcToken] [lonelyPool]"
  let ?url = "endpoints_Rest lunaProvider @ ''/graphql''"
  have f: "json_Marshal ?env tokenQuery = Inr (Query tokenQuery)"
    "httpPost ?env ?url (Query tokenQuery) = Inr (Query tokenQuery)"
    "unmarshalTokens ?env (Query tokenQuery)
       = Inr \<lparr>tokens_Data = \<lparr>Tokens = [lunaToken, usdcToken]\<rparr>\<rparr>"
    "json_Marshal ?env poolQuery = Inr (Query poolQuery)"
    "httpPost ?env ?url (Query poolQuery) = Inr (Query poolQuery)"
    "unmarshalPools ?env (Query poolQuery) = Inr \<lparr>pools_Data = \<lparr>Pools = [lonelyPool]\<rparr>\<rparr>"
    by (simp_all add: venueEnv_def)
  have p: "Pools (pools_Data \<lparr>pools_Data = \<lparr>Pools = [lonelyPool]\<rparr>\<rparr>) = lonelyPool # []"
    by simp
  have l: "100000 \<le> pool_Liquidity lonelyPool"
    by (simp add: lonelyPool_def lunaPool_def)
  have n: "length (pool_Assets lonelyPool) < 2"
    by (simp add: lonelyPool_def)
  show ?thesis
    using l n Poll_short_assets_panics [OF f p l n] by simp
qed

text \<open>
  Claim C9. A pool that passes the liquidity floor, the pair matching and the token
  lookups is divided without a guard: when the quote asset's price converts to the
  decimal 0, or the base asset's price does and the pool volume converts, a poll cycle
  that meets the pool first panics with a division by zero instead of returning an error.
\<close>

theorem Poll_zero_price_panics:
  assumes "json_Marshal env tokenQuery = Inr d1"
    and "httpPost env (endpoints_Rest p @ ''/graphql'') d1 = Inr c1"
    and "unmarshalTokens env c1 = Inr tr"
    and "json_Marshal env poolQuery = Inr d2"
    and "httpPost env (endpoints_Rest p @ ''/graphql'') d2 = Inr c2"
    and "unmarshalPools env c2 = Inr pr"
    and "Pools (pools_Data pr) = pool # rest"
    and "100000 \<le> pool_Liquidity pool"
    and "getPoolAssets env (pairs p) pool = Inr (poolAsset1, poolAsset2, True)"
    and "collectTokens (Tokens (tokens_Data tr)) Map.empty
           (strings_ToLower env (asset_Address poolAsset1)) = Some token1"
    and "collectTokens (Tokens (tokens_Data tr)) Map.empty
           (strings_ToLower env (asset_Address poolAsset2)) = Some token2"
    and "floatToDec env (token_Price token1) = Inr price1"
    and "floatToDec env (token_Price token2) = Inr price2"
    and "price2 = 0 \<or> (price1 = 0 \<and> floatToDec env (pool_Volume pool) = Inr vol)"
  shows "Poll env p = (Panicked DivisionByZero, p)"
proof -
  have quo0: "Quo env 0 price2 = Inr 0" if "price2 \<noteq> 0"
    using that
    by (simp add: Quo_def quoDec_def bigQuo_def chopPrecisionAndRound_def chopPos_def
        precisionReuse_def)
  have "pollPool env (pairs p) (collectTokens (Tokens (tokens_Data tr)) Map.empty)
               (time_Now env) pool (tickers p) = Inl DivisionByZero"
  proof (cases "price2 = 0")
    case True
    then show ?thesis
      using assms(8-13) by (simp add: pollPool_def Quo_def)
  next
    case False
    with assms(14) have z: "price1 = 0" and v: "floatToDec env (pool_Volume pool) = Inr vol"
      by simp_all
    have "Quo env vol price1 = Inl DivisionByZero"
      using z by (simp add: Quo_def)
    then show ?thesis
      using assms(8-13) z v quo0 [OF False] by (simp add: pollPool_def)
  qed
  then show ?thesis
    using assms(7) by (simp add: Poll_after_fetch [OF assms(1-6)])
qed

theorem Poll_zero_price_panics_witness:
  "token_Price zeroUsdcToken = 0
   \<and> Poll (venueEnv [lunaToken, zeroUsdcToken] [lunaPool]) lunaProvider
     = (Panicked DivisionByZero, lunaProvider)"
proof -
  let ?env = "venueEnv [lunaToken, zeroUsdcToken] [lunaPool]"
  let ?url = "endpoints_Rest lunaProvider @ ''/graphql''"
  have f: "json_Marshal ?env tokenQuery = Inr (Query tokenQuery)"
    "httpPost ?env ?url (Query tokenQuery) = Inr (Query tokenQuery)"
    "unmarshalTokens ?env (Query tokenQuery)
       = Inr \<lparr>tokens_Data = \<lparr>Tokens = [lunaToken, zeroUsdcToken]\<rparr>\<rparr>"
    "json_Marshal ?env poolQuery = Inr (Query poolQuery)"
    "httpPost ?env ?url (Query poolQuery) = Inr (Query poolQuery)"
    "unmarshalPools ?env (Query poolQuery) = Inr \<lparr>pools_Data = \<lparr>Pools = [lunaPool]\<rparr>\<rparr>"
    by (simp_all add: venueEnv_def)
  have p: "Pools (pools_Data \<lparr>pools_Data = \<lparr>Pools = [lunaPool]\<rparr>\<rparr>) = lunaPool # []"
    by simp
  have l: "100000 \<le> pool_Liquidity lunaPool"
    by (simp add: lunaPool_def)
  have g: "getPoolAssets ?env (pairs lunaProvider) lunaPool = Inr (lunaAsset, usdcAsset, True)"
    by code_simp
  have t1: "collectTokens
              (Tokens (tokens_Data \<lparr>tokens_Data = \<lparr>Tokens = [lunaToken, zeroUsdcToken]\<rparr>\<rparr>))
              Map.empty (strings_ToLower ?env (asset_Address lunaAsset)) = Some lunaToken"
    by code_simp
  have t2: "collectTokens
              (Tokens (tokens_Data \<lparr>tokens_Data = \<lparr>Tokens = [lunaToken, zeroUsdcToken]\<rparr>\<rparr>))
              Map.empty (strings_ToLower ?env (asset_Address usdcAsset)) = Some zeroUsdcToken"
    by code_simp
  have p1: "floatToDec ?env (token_Price lunaToken) = Inr (mkDec 2 0)"
    by (simp add: venueEnv_def lunaToken_def mkDec_def)
  have p2: "floatToDec ?env (token_Price zeroUsdcToken) = Inr 0"
    by (simp add: venueEnv_def zeroUsdcToken_def)
  have z: "(0::Dec) = 0 \<or> (mkDec 2 0 = 0 \<and> floatToDec ?env (pool_Volume lunaPool) = Inr 0)"
    by simp
  have zp: "token_Price zeroUsdcToken = 0"
    by (simp add: zeroUsdcToken_def)
  show ?thesis
    using zp Poll_zero_price_panics [OF f p l g t1 t2 p1 p2 z] by simp
qed

lemma Poll_zero_base_price_panics:
  "token_Price zeroLunaToken = 0
   \<and> fst (Poll (venueEnv [zeroLunaToken, usdcToken] [lunaPool]) lunaProvider)
     = Panicked DivisionByZero"
  by code_simp

text \<open>
  Claim C5, stated as the code has it. A token record whose symbol is in the allow-list
  under another address is never stored in the token map. A pool with at least two
  assets, one of whose first two assets sits at that record's address, is skipped (the
  loop body leaves the ticker store as it is) provided that no admitted token record is
  stored under the lower-cased form of that address. The proviso is needed: the lookup
  lower-cases the pool asset's address and finds whatever admitted record sits there.
\<close>

theorem excluded_token_pool_skipped:
  assumes "token \<in> set ts" and "excluded token"
  shows "(\<forall>k. collectTokens ts Map.empty k \<noteq> Some token)
       \<and> (pool_Assets pool = a1 # a2 # others
          \<longrightarrow> asset_Address a1 = token_Address token \<or> asset_Address a2 = token_Address token
          \<longrightarrow> (\<forall>t \<in> set ts. \<not> excluded t
                \<longrightarrow> token_Address t \<noteq> strings_ToLower env (token_Address token))
          \<longrightarrow> pollPool env prs (collectTokens ts Map.empty) timestamp pool tks = Inr tks)"
proof (intro conjI allI impI)
  fix k
  show "collectTokens ts Map.empty k \<noteq> Some token"
    using collectTokens_origin [of ts Map.empty k token] assms(2) by auto
next
  assume assets: "pool_Assets pool = a1 # a2 # others"
    and here: "asset_Address a1 = token_Address token \<or> asset_Address a2 = token_Address token"
    and free: "\<forall>t \<in> set ts. \<not> excluded t
                \<longrightarrow> token_Address t \<noteq> strings_ToLower env (token_Address token)"
  have "strings_ToLower env (token_Address token) \<notin> dom (collectTokens ts Map.empty)"
    using free by (auto simp: dom_collectTokens)
  then have "collectTokens ts Map.empty (strings_ToLower env (token_Address token)) = None"
    by auto
  with here
  have "collectTokens ts Map.empty (strings_ToLower env (asset_Address a1)) = None
      \<or> collectTokens ts Map.empty (strings_ToLower env (asset_Address a2)) = None"
    by auto
  with assets show "pollPool env prs (collectTokens ts Map.empty) timestamp pool tks = Inr tks"
    by (rule pollPool_missing_token)
qed

theorem excluded_token_pool_skipped_witness:
  "spoofToken \<in> set [lunaToken, spoofToken, usdcToken] \<and> excluded spoofToken
   \<and> pool_Assets spoofPool = spoofAsset # usdcAsset # []
   \<and> asset_Address spoofAsset = token_Address spoofToken
   \<and> collectTokens [lunaToken, spoofToken, usdcToken] Map.empty ''terra1spoof'' \<noteq> Some spoofToken
   \<and> pollPool (venueEnv [lunaToken, spoofToken, usdcToken] [spoofPool]) (pairs lunaProvider)
        (collectTokens [lunaToken, spoofToken, usdcToken] Map.empty) 1700000000 spoofPool
        (tickers lunaProvider) = Inr (tickers lunaProvider)"
proof -
  let ?ts = "[lunaToken, spoofToken, usdcToken]"
  have m: "spoofToken \<in> set ?ts"
    by simp
  have e: "excluded spoofToken"
    by code_simp
  have a: "pool_Assets spoofPool = spoofAsset # usdcAsset # []"
    by (simp add: spoofPool_def)
  have h: "asset_Address spoofAsset = token_Address spoofToken"
    by (simp add: spoofAsset_def spoofToken_def)
  have f: "\<forall>t \<in> set ?ts. \<not> excluded t
             \<longrightarrow> token_Address t
                 \<noteq> strings_ToLower (venueEnv ?ts [spoofPool]) (token_Address spoofToken)"
    by code_simp
  note inst = excluded_token_pool_skipped [OF m e,
      of spoofPool spoofAsset usdcAsset "[]" "venueEnv ?ts [spoofPool]" "pairs lunaProvider"
         1700000000 "tickers lunaProvider"]
  have s: "collectTokens ?ts Map.empty ''terra1spoof'' \<noteq> Some spoofToken"
    using inst by blast
  have r: "pollPool (venueEnv ?ts [spoofPool]) (pairs lunaProvider)
        (collectTokens ?ts Map.empty) 1700000000 spoofPool
        (tickers lunaProvider) = Inr (tickers lunaProvider)"
    using inst a h f by blast
  show ?thesis
    using m e a h s r by (intro conjI)
qed

text \<open>
  The claim as the spec words it fails. The record \<open>upperToken\<close> has the allow-listed
  symbol LUNA at the address \<^verbatim>\<open>ULUNA\<close>, which is not the allow-listed \<^verbatim>\<open>uluna\<close>, so it is
  excluded. \<open>upperPool\<close> holds an asset at that very address and matches the configured
  pair; it is not skipped: a poll cycle writes its pair to the ticker store.
\<close>

theorem excluded_token_pool_written:
  "upperToken \<in> set [lunaToken, upperToken, usdcToken]
   \<and> whitelist (token_Symbol upperToken) = Some ''uluna''
   \<and> token_Address upperToken \<noteq> ''uluna''
   \<and> pool_Assets upperPool = [upperAsset, usdcAsset]
   \<and> asset_Address upperAsset = token_Address upperToken
   \<and> tickers lunaProvider ''LUNAUSDC'' = None
   \<and> fst (Poll (venueEnv [lunaToken, upperToken, usdcToken] [upperPool]) lunaProvider)
     = Returned None
   \<and> tickers (snd (Poll (venueEnv [lunaToken, upperToken, usdcToken] [upperPool]) lunaProvider))
        ''LUNAUSDC'' = Some lunaTicker"
  by code_simp

text \<open>
  The proviso covers a second case: \<open>cloneToken\<close> is admitted under the address of the
  excluded \<open>spoofToken\<close>, and \<open>spoofPool\<close> is then priced with it and written.
\<close>

lemma shared_address_pool_written:
  "excluded spoofToken \<and> \<not> excluded cloneToken
   \<and> token_Address cloneToken = token_Address spoofToken
   \<and> fst (Poll (venueEnv [cloneToken, spoofToken, usdcToken] [spoofPool]) lunaProvider)
     = Returned None
   \<and> tickers (snd (Poll (venueEnv [cloneToken, spoofToken, usdcToken] [spoofPool]) lunaProvider))
        ''LUNAUSDC'' = Some lunaTicker"
  by code_simp

lemma getPoolAssets_panic:
  "getPoolAssets env prs pool = Inl pn \<Longrightarrow> pn = IndexOutOfRange"
  by (auto simp: getPoolAssets_def split: list.splits if_splits)

text \<open>The loop body reads the token map at lower-cased addresses only.\<close>

lemma pollPool_tokens_cong:
  assumes "\<And>a. tokens (strings_ToLower env a) = tokens' (strings_ToLower env a)"
  shows "pollPool env prs tokens timestamp pool tks = pollPool env prs tokens' timestamp pool tks"
  unfolding pollPool_def assms ..

lemma pollPools_tokens_cong:
  assumes "\<And>a. tokens (strings_ToLower env a) = tokens' (strings_ToLower env a)"
  shows "pollPools env prs tokens timestamp pools tks
       = pollPools env prs tokens' timestamp pools tks"
proof (induction pools arbitrary: tks)
  case Nil
  show ?case by simp
next
  case (Cons pool rest)
  have "pollPool env prs tokens timestamp pool tks = pollPool env prs tokens' timestamp pool tks"
    using assms by (rule pollPool_tokens_cong)
  then show ?case
    by (simp add: Cons.IH split: sum.splits)
qed

text \<open>A pool that is neither skipped nor cut short by the index panic has both its
  assets resolved in the token map, at their lower-cased addresses.\<close>

lemma pollPool_resolved:
  assumes "pollPool env prs tokens timestamp pool tks \<noteq> Inr tks"
    and "pollPool env prs tokens timestamp pool tks \<noteq> Inl IndexOutOfRange"
  shows "\<exists>poolAsset1 poolAsset2 token1 token2.
           getPoolAssets env prs pool = Inr (poolAsset1, poolAsset2, True)
         \<and> tokens (strings_ToLower env (asset_Address poolAsset1)) = Some token1
         \<and> tokens (strings_ToLower env (asset_Address poolAsset2)) = Some token2"
proof (cases "getPoolAssets env prs pool")
  case (Inl pn)
  then have "pn = IndexOutOfRange"
    by (rule getPoolAssets_panic)
  with Inl assms show ?thesis
    by (simp add: pollPool_def split: if_splits)
next
  case (Inr r)
  obtain poolAsset1 poolAsset2 ok where r: "r = (poolAsset1, poolAsset2, ok)"
    by (cases r)
  from assms(1) Inr r show ?thesis
    by (cases ok; cases "tokens (strings_ToLower env (asset_Address poolAsset1))";
        cases "tokens (strings_ToLower env (asset_Address poolAsset2))")
       (simp_all add: pollPool_def split: if_splits)
qed

text \<open>A resolved pool whose conversions and divisions go through is written.\<close>

lemma pollPool_priced:
  assumes "100000 \<le> pool_Liquidity pool"
    and "getPoolAssets env prs pool = Inr (poolAsset1, poolAsset2, True)"
    and "tokens (strings_ToLower env (asset_Address poolAsset1)) = Some token1"
    and "tokens (strings_ToLower env (asset_Address poolAsset2)) = Some token2"
    and "floatToDec env (token_Price token1) = Inr price1"
    and "floatToDec env (token_Price token2) = Inr price2"
    and "Quo env price1 price2 = Inr price"
    and "floatToDec env (pool_Volume pool) = Inr vol"
    and "Quo env vol price1 = Inr volume"
  shows "pollPool env prs tokens timestamp pool tks
       = Inr (tks(strings_ToUpper env (asset_Symbol poolAsset1 @ asset_Symbol poolAsset2) \<mapsto>
                \<lparr>Price = price, Volume = volume, Time = timestamp\<rparr>))"
  using assms by (simp add: pollPool_def)

text \<open>
  Claim C10. The token map is keyed by each token's address as it is written, and the
  loop body of \<open>Poll\<close> looks a pool asset up under its lower-cased address. Lower-casing
  a lower-cased string changes nothing. So an admitted token whose address has an
  upper-case character is stored under that address, yet no pool ever reads it: the
  loop body and the whole loop end the same when its entry is deleted from the map.
  Whenever a pool is not skipped (and does not stop at the index panic), both its assets
  were found at their lower-cased addresses, under tokens whose addresses are entirely
  lower-case; and a pool so resolved, whose conversions and divisions go through, is
  written.
\<close>

theorem address_lookup_case_asymmetric:
  assumes "\<forall>s. strings_ToLower env (strings_ToLower env s) = strings_ToLower env s"
    and "t \<in> set ts" and "\<not> excluded t" and "hasUpper env (token_Address t)"
  shows "collectTokens ts Map.empty (token_Address t) \<noteq> None
       \<and> pollPool env prs (collectTokens ts Map.empty) timestamp pool tks
         = pollPool env prs ((collectTokens ts Map.empty)(token_Address t := None))
             timestamp pool tks
       \<and> pollPools env prs (collectTokens ts Map.empty) timestamp pools tks
         = pollPools env prs ((collectTokens ts Map.empty)(token_Address t := None))
             timestamp pools tks
       \<and> (pollPool env prs (collectTokens ts Map.empty) timestamp pool tks \<noteq> Inr tks
          \<longrightarrow> pollPool env prs (collectTokens ts Map.empty) timestamp pool tks
                \<noteq> Inl IndexOutOfRange
          \<longrightarrow> (\<exists>poolAsset1 poolAsset2 token1 token2.
                 getPoolAssets env prs pool = Inr (poolAsset1, poolAsset2, True)
               \<and> collectTokens ts Map.empty (strings_ToLower env (asset_Address poolAsset1))
                   = Some token1
               \<and> collectTokens ts Map.empty (strings_ToLower env (asset_Address poolAsset2))
                   = Some token2
               \<and> token_Address token1 = strings_ToLower env (asset_Address poolAsset1)
               \<and> token_Address token2 = strings_ToLower env (asset_Address poolAsset2)
               \<and> \<not> hasUpper env (token_Address token1)
               \<and> \<not> hasUpper env (token_Address token2)
               \<and> token_Address token1 \<noteq> token_Address t
               \<and> token_Address token2 \<noteq> token_Address t))
       \<and> (100000 \<le> pool_Liquidity pool
          \<longrightarrow> getPoolAssets env prs pool = Inr (b1, b2, True)
          \<longrightarrow> collectTokens ts Map.empty (strings_ToLower env (asset_Address b1)) = Some u1
          \<longrightarrow> collectTokens ts Map.empty (strings_ToLower env (asset_Address b2)) = Some u2
          \<longrightarrow> floatToDec env (token_Price u1) = Inr price1
          \<longrightarrow> floatToDec env (token_Price u2) = Inr price2
          \<longrightarrow> Quo env price1 price2 = Inr price
          \<longrightarrow> floatToDec env (pool_Volume pool) = Inr vol
          \<longrightarrow> Quo env vol price1 = Inr volume
          \<longrightarrow> pollPool env prs (collectTokens ts Map.empty) timestamp pool tks
              = Inr (tks(strings_ToUpper env (asset_Symbol b1 @ asset_Symbol b2) \<mapsto>
                       \<lparr>Price = price, Volume = volume, Time = timestamp\<rparr>)))"
proof -
  let ?tokens = "collectTokens ts Map.empty"
  have idem: "strings_ToLower env (strings_ToLower env s) = strings_ToLower env s" for s
    using assms(1) by simp
  have lowered: "\<not> hasUpper env (strings_ToLower env a)" for a
    by (simp add: hasUpper_def idem)
  have never: "strings_ToLower env a \<noteq> token_Address t" for a
    using assms(4) lowered [of a] by auto
  have same: "?tokens (strings_ToLower env a)
            = (?tokens(token_Address t := None)) (strings_ToLower env a)" for a
    using never [of a] by simp
  have stored: "?tokens (token_Address t) \<noteq> None"
  proof -
    have "token_Address t \<in> dom ?tokens"
      using assms(2,3) by (auto simp: dom_collectTokens)
    then show ?thesis by auto
  qed
  have body: "pollPool env prs ?tokens timestamp pool tks
            = pollPool env prs (?tokens(token_Address t := None)) timestamp pool tks"
    using same by (rule pollPool_tokens_cong)
  have loop: "pollPools env prs ?tokens timestamp pools tks
            = pollPools env prs (?tokens(token_Address t := None)) timestamp pools tks"
    using same by (rule pollPools_tokens_cong)
  have only: "\<exists>poolAsset1 poolAsset2 token1 token2.
                 getPoolAssets env prs pool = Inr (poolAsset1, poolAsset2, True)
               \<and> ?tokens (strings_ToLower env (asset_Address poolAsset1)) = Some token1
               \<and> ?tokens (strings_ToLower env (asset_Address poolAsset2)) = Some token2
               \<and> token_Address token1 = strings_ToLower env (asset_Address poolAsset1)
               \<and> token_Address token2 = strings_ToLower env (asset_Address poolAsset2)
               \<and> \<not> hasUpper env (token_Address token1)
               \<and> \<not> hasUpper env (token_Address token2)
               \<and> token_Address token1 \<noteq> token_Address t
               \<and> token_Address token2 \<noteq> token_Address t"
    if ns: "pollPool env prs ?tokens timestamp pool tks \<noteq> Inr tks"
      and np: "pollPool env prs ?tokens timestamp pool tks \<noteq> Inl IndexOutOfRange"
  proof -
    from pollPool_resolved [OF ns np]
    obtain poolAsset1 poolAsset2 token1 token2
      where g: "getPoolAssets env prs pool = Inr (poolAsset1, poolAsset2, True)"
        and l1: "?tokens (strings_ToLower env (asset_Address poolAsset1)) = Some token1"
        and l2: "?tokens (strings_ToLower env (asset_Address poolAsset2)) = Some token2"
      by blast
    have k1: "token_Address token1 = strings_ToLower env (asset_Address poolAsset1)"
      using l1 by (intro collectTokens_keyed [of Map.empty ts _ token1]) simp_all
    have k2: "token_Address token2 = strings_ToLower env (asset_Address poolAsset2)"
      using l2 by (intro collectTokens_keyed [of Map.empty ts _ token2]) simp_all
    show ?thesis
      using g l1 l2 k1 k2 lowered never by (intro exI [of _ poolAsset1] exI [of _ poolAsset2]
          exI [of _ token1] exI [of _ token2]) simp
  qed
  have written: "pollPool env prs ?tokens timestamp pool tks
              = Inr (tks(strings_ToUpper env (asset_Symbol b1 @ asset_Symbol b2) \<mapsto>
                       \<lparr>Price = price, Volume = volume, Time = timestamp\<rparr>))"
    if "100000 \<le> pool_Liquidity pool"
      and "getPoolAssets env prs pool = Inr (b1, b2, True)"
      and "?tokens (strings_ToLower env (asset_Address b1)) = Some u1"
      and "?tokens (strings_ToLower env (asset_Address b2)) = Some u2"
      and "floatToDec env (token_Price u1) = Inr price1"
      and "floatToDec env (token_Price u2) = Inr price2"
      and "Quo env price1 price2 = Inr price"
      and "floatToDec env (pool_Volume pool) = Inr vol"
      and "Quo env vol price1 = Inr volume"
    using that by (rule pollPool_priced)
  show ?thesis
    using stored body loop only written by (intro conjI impI)
qed

theorem address_lookup_case_asymmetric_witness:
  "astroToken \<in> set [astroToken, usdcToken] \<and> \<not> excluded astroToken
   \<and> hasUpper (venueEnv [astroToken, usdcToken] [astroPool]) (token_Address astroToken)
   \<and> collectTokens [astroToken, usdcToken] Map.empty (asset_Address astroAsset)
     = Some astroToken
   \<and> pollPools (venueEnv [astroToken, usdcToken] [astroPool]) (pairs astroProvider)
       (collectTokens [astroToken, usdcToken] Map.empty) 1700000000 [astroPool]
       (tickers astroProvider)
     = pollPools (venueEnv [astroToken, usdcToken] [astroPool]) (pairs astroProvider)
         ((collectTokens [astroToken, usdcToken] Map.empty)(token_Address astroToken := None))
         1700000000 [astroPool] (tickers astroProvider)
   \<and> fst (Poll (venueEnv [astroToken, usdcToken] [astroPool]) astroProvider) = Returned None
   \<and> tickers (snd (Poll (venueEnv [astroToken, usdcToken] [astroPool]) astroProvider))
        ''ASTROUSDC'' = None
   \<and> tickers (snd (Poll (venueEnv [lunaToken, usdcToken] [upperPool]) lunaProvider))
        ''LUNAUSDC'' = Some lunaTicker"
proof -
  let ?ts = "[astroToken, usdcToken]"
  let ?env = "venueEnv ?ts [astroPool]"
  have i: "\<forall>s. strings_ToLower ?env (strings_ToLower ?env s) = strings_ToLower ?env s"
    by (simp add: venueEnv_def asciiToLower_idem)
  have m: "astroToken \<in> set ?ts"
    by simp
  have e: "\<not> excluded astroToken"
    by code_simp
  have u: "hasUpper ?env (token_Address astroToken)"
    by code_simp
  have s: "collectTokens ?ts Map.empty (asset_Address astroAsset) = Some astroToken"
    by code_simp
  note inst = address_lookup_case_asymmetric [OF i m e u, of "pairs astroProvider" 1700000000
      astroPool "tickers astroProvider" "[astroPool]"]
  have l: "pollPools ?env (pairs astroProvider) (collectTokens ?ts Map.empty) 1700000000
             [astroPool] (tickers astroProvider)
         = pollPools ?env (pairs astroProvider)
             ((collectTokens ?ts Map.empty)(token_Address astroToken := None))
             1700000000 [astroPool] (tickers astroProvider)"
    using inst by blast
  have r: "fst (Poll ?env astroProvider) = Returned None"
    by code_simp
  have n: "tickers (snd (Poll ?env astroProvider)) ''ASTROUSDC'' = None"
    by code_simp
  have w: "tickers (snd (Poll (venueEnv [lunaToken, usdcToken] [upperPool]) lunaProvider))
             ''LUNAUSDC'' = Some lunaTicker"
    by code_simp
  show ?thesis
    using m e u s l r n w by (intro conjI)
qed

end
